theory Spec2Isabelle
  imports Complex_Main "HOL-Library.Sublist" "HOL-Library.Multiset"
begin

section \<open>Strings\<close>

text \<open>
  A Python \<open>str\<close> is modelled by its UTF-8 encoding, a \<open>string\<close> of 8-bit characters.
  Every separator the code searches for (NUL, newline, space, colon, the digits, the words
  \<open>commit\<close> and \<open>diff\<close>, \<open>@@\<close>) is ASCII, and an ASCII byte never occurs inside the
  encoding of another code point, so splitting, stripping and slicing at these separators
  give the same pieces on the encoding as on the code points; \<open>length\<close> is then the value
  of \<open>len(s.encode("utf-8"))\<close>.
\<close>

abbreviation NUL :: char where "NUL \<equiv> CHR 0x00"
abbreviation LF :: char where "LF \<equiv> CHR 0x0A"

text \<open>\<open>s.rstrip(chars)\<close>: drop the trailing characters that occur in \<open>chars\<close>.\<close>

definition rstrip :: "string \<Rightarrow> string \<Rightarrow> string" where
  "rstrip chars s = rev (dropWhile (\<lambda>c. c \<in> set chars) (rev s))"

text \<open>
  \<open>s.split(sep)\<close> for a separator given explicitly: the pieces between the non-overlapping
  occurrences of \<open>sep\<close>, found from the left; the empty string gives one empty piece.
  (Python raises ValueError for an empty separator; every call site passes a non-empty
  constant.)
\<close>

function split :: "string \<Rightarrow> string \<Rightarrow> string list" where
  "split sep [] = [[]]"
| "split sep (c # cs) =
     (if sep \<noteq> [] \<and> prefix sep (c # cs)
      then [] # split sep (drop (length sep) (c # cs))
      else (case split sep cs of
              [] \<Rightarrow> [[c]]
            | piece # pieces \<Rightarrow> (c # piece) # pieces))"
  by pat_completeness auto
termination
  by (relation "measure (\<lambda>(sep, s). length s)") (auto simp: neq_Nil_conv)

text \<open>
  \<open>s.split(sep, 1)\<close>: \<open>None\<close> stands for the one-element list (no occurrence),
  \<open>Some (before, after)\<close> for the two pieces around the first occurrence.
\<close>

fun split_once :: "string \<Rightarrow> string \<Rightarrow> (string \<times> string) option" where
  "split_once sep [] = (if sep = [] then Some ([], []) else None)"
| "split_once sep (c # cs) =
     (if prefix sep (c # cs) then Some ([], drop (length sep) (c # cs))
      else (case split_once sep cs of
              None \<Rightarrow> None
            | Some (before, after) \<Rightarrow> Some (c # before, after)))"

text \<open>\<open>s.rsplit(" ", 1)[-1]\<close>: what follows the last occurrence of the character, or all of \<open>s\<close>.\<close>

definition rsplit_last :: "char \<Rightarrow> string \<Rightarrow> string" where
  "rsplit_last c s = rev (takeWhile (\<lambda>x. x \<noteq> c) (rev s))"

text \<open>\<open>s.index(sub)\<close>: the first position where \<open>sub\<close> starts; \<open>None\<close> is the ValueError.\<close>

fun index_of :: "string \<Rightarrow> string \<Rightarrow> nat option" where
  "index_of sub [] = (if sub = [] then Some 0 else None)"
| "index_of sub (c # cs) =
     (if prefix sub (c # cs) then Some 0 else map_option Suc (index_of sub cs))"


section \<open>Filemode, exceptions\<close>

text \<open>
  Modelled from the spec: the enumeration \<open>Filemode\<close> is declared in
  \<open>ggshield.core.utils\<close>; its members are those of the data model, which are also the
  ones the code names.
\<close>

datatype filemode = MODIFY | DELETE | NEW | RENAME | FILE

text \<open>
  The exceptions the modelled code raises, each with its message where the code builds one.
  \<open>UsageError\<close> and \<open>ClickException\<close> are click's.
\<close>

datatype exn =
    ValueError string
  | IndexError
  | AttributeError
  | PatchParseError string
  | UsageError string
  | ClickException string

text \<open>\<open>str(exc)\<close>: the message the exception was built with.\<close>

fun exn_str :: "exn \<Rightarrow> string" where
  "exn_str (ValueError m) = m"
| "exn_str IndexError = ''list index out of range''"
| "exn_str AttributeError =
     [CHR 0x27] @ ''NoneType'' @ [CHR 0x27] @ '' object has no attribute '' @
     [CHR 0x27] @ ''results'' @ [CHR 0x27]"
| "exn_str (PatchParseError m) = m"
| "exn_str (UsageError m) = m"
| "exn_str (ClickException m) = m"


section \<open>Patch header parser\<close>

text \<open>
  \<open>prefix, name, *rest = line.rstrip("\0").split("\0")\<close>: the unpacking raises ValueError
  when the split has fewer than two pieces.
\<close>

definition header_fields :: "string \<Rightarrow> exn + (string \<times> string \<times> string list)" where
  "header_fields line =
     (case split [NUL] (rstrip [NUL] line) of
        pfx # name # rest \<Rightarrow> Inr (pfx, name, rest)
      | _ \<Rightarrow> Inl (ValueError ''not enough values to unpack (expected at least 2, got 1)''))"

text \<open>\<open>status = prefix.rsplit(" ", 1)[-1].rstrip("0123456789")\<close>\<close>

definition header_status :: "string \<Rightarrow> string" where
  "header_status pfx = rstrip ''0123456789'' (rsplit_last CHR '' '' pfx)"

text \<open>The name the line resolves to: the new name when the line has one.\<close>

definition effective_name :: "string \<Rightarrow> string list \<Rightarrow> string" where
  "effective_name name rest = (case rest of [] \<Rightarrow> name | new_name # _ \<Rightarrow> new_name)"

definition unknown_status_message :: "string \<Rightarrow> string \<Rightarrow> string" where
  "unknown_status_message line status =
     ''Can't parse header line '' @ line @ '': unknown status '' @ status"

definition parse_patch_header_line :: "string \<Rightarrow> exn + (string \<times> filemode)" where
  "parse_patch_header_line line =
     (case header_fields line of
        Inl e \<Rightarrow> Inl e
      | Inr (pfx, name0, rest) \<Rightarrow>
          let name = effective_name name0 rest;
              status = header_status pfx
          in if CHR ''M'' \<in> set status then Inr (name, MODIFY)
             else if CHR ''C'' \<in> set status then Inr (name, NEW)
             else if CHR ''A'' \<in> set status then Inr (name, NEW)
             else if CHR ''T'' \<in> set status then Inr (name, NEW)
             else if CHR ''R'' \<in> set status then Inr (name, RENAME)
             else if CHR ''D'' \<in> set status then Inr (name, DELETE)
             else Inl (ValueError (unknown_status_message line status)))"

text \<open>
  The spec's reading of the classification, for comparison with the chain of tests above:
  the status letters in their fixed priority order, each with its filemode; the first
  letter of the table that occurs in the status decides.
\<close>

definition status_priority :: "(char \<times> filemode) list" where
  "status_priority =
     [(CHR ''M'', MODIFY), (CHR ''C'', NEW), (CHR ''A'', NEW),
      (CHR ''T'', NEW), (CHR ''R'', RENAME), (CHR ''D'', DELETE)]"

definition first_match :: "string \<Rightarrow> filemode option" where
  "first_match status =
     map_option snd (find (\<lambda>(letter, mode). letter \<in> set status) status_priority)"


section \<open>Result, Error, Results\<close>

text \<open>
  \<open>'s\<close> is pygitguardian's \<open>ScanResult\<close>, the per-file outcome of the remote scan.
\<close>

record 's result =
  content :: string
  result_filemode :: filemode
  result_filename :: string
  scan :: 's

record error =
  files :: "(string \<times> filemode) list"
  description :: string

record 's results =
  results :: "'s result list"
  errors :: "error list"

definition from_exception :: "exn \<Rightarrow> 's results" where
  "from_exception exc =
     (let error = \<lparr>files = [], description = exn_str exc\<rparr>
      in \<lparr>results = [], errors = [error]\<rparr>)"


section \<open>ScanCollection\<close>

text \<open>
  \<open>'i\<close> is \<open>IaCScanResult\<close>. The selectors \<open>sc_id\<close>, \<open>sc_type\<close> and \<open>sc_results\<close> are the
  fields \<open>id\<close>, \<open>type\<close> and \<open>results\<close>.
\<close>

datatype ('s, 'i) scan_collection =
  ScanCollection
    (sc_id: string)
    (sc_type: string)
    (sc_results: "'s results option")
    (scans: "('s, 'i) scan_collection list option")
    (iac_result: "'i option")
    (optional_header: "string option")
    (extra_info: "(string \<times> string) list option")

text \<open>
  Truth values. \<open>Results\<close> is a dataclass that defines neither \<open>__bool__\<close> nor
  \<open>__len__\<close>, so \<open>if scan.results\<close> tests that the field is not \<open>None\<close>;
  \<open>if self.scans\<close> tests that the list is neither \<open>None\<close> nor empty.
\<close>

definition scans_with_results :: "('s, 'i) scan_collection \<Rightarrow> ('s, 'i) scan_collection list" where
  "scans_with_results self =
     (case scans self of
        None \<Rightarrow> []
      | Some children \<Rightarrow>
          if children \<noteq> [] then filter (\<lambda>scan. sc_results scan \<noteq> None) children else [])"

definition has_results :: "('s, 'i) scan_collection \<Rightarrow> bool" where
  "has_results self = (case sc_results self of None \<Rightarrow> False | Some r \<Rightarrow> results r \<noteq> [])"

text \<open>
  \<open>get_all_results\<close> is a generator: the model gives the list of the items it yields and
  how it ends, \<open>None\<close> when it is exhausted and \<open>Some e\<close> when it raises \<open>e\<close> after the
  items. \<open>scan.results.results\<close> on a child whose \<open>results\<close> is \<open>None\<close> raises
  AttributeError.
\<close>

fun yield_from_scans :: "('s, 'i) scan_collection list \<Rightarrow> 's result list \<times> exn option" where
  "yield_from_scans [] = ([], None)"
| "yield_from_scans (child # rest) =
     (case sc_results child of
        None \<Rightarrow> ([], Some AttributeError)
      | Some r \<Rightarrow> (let (ys, ending) = yield_from_scans rest in (results r @ ys, ending)))"

definition get_all_results :: "('s, 'i) scan_collection \<Rightarrow> 's result list \<times> exn option" where
  "get_all_results self =
     (let own = (case sc_results self of None \<Rightarrow> [] | Some r \<Rightarrow> results r)
      in case scans self of
           None \<Rightarrow> (own, None)
         | Some children \<Rightarrow>
             if children \<noteq> []
             then (let (ys, ending) = yield_from_scans children in (own @ ys, ending))
             else (own, None))"

text \<open>
  The spec's reading, for comparison: this node's results, then those of every descendant,
  children in list order.
\<close>

fun results_of_subtree :: "('s, 'i) scan_collection \<Rightarrow> 's result list" where
  "results_of_subtree (ScanCollection i t r children ia h x) =
     (case r of None \<Rightarrow> [] | Some own \<Rightarrow> results own) @
     (case children of None \<Rightarrow> [] | Some cs \<Rightarrow> concat (map results_of_subtree cs))"

text \<open>The spec's reading of a child with non-empty Results: at least one result or error.\<close>

definition results_nonempty :: "('s, 'i) scan_collection \<Rightarrow> bool" where
  "results_nonempty child =
     (case sc_results child of None \<Rightarrow> False | Some r \<Rightarrow> results r \<noteq> [] \<or> errors r \<noteq> [])"


section \<open>File\<close>

text \<open>
  A file as the scanner and the patch parser see it: \<open>document\<close> is the value of the
  \<open>document\<close> property, the decoded text. \<open>CommitFile\<close> builds one with the filemode
  found in the patch.
\<close>

record "file" =
  document :: string
  filename :: string
  filemode :: filemode

definition CommitFile :: "string \<Rightarrow> string \<Rightarrow> filemode \<Rightarrow> file" where
  "CommitFile doc name mode = \<lparr>document = doc, filename = name, filemode = mode\<rparr>"


section \<open>The size limit: a product of binary64 numbers\<close>

text \<open>
  \<open>DOCUMENT_SIZE_THRESHOLD_BYTES * 0.90\<close> multiplies an \<open>int\<close> by a \<open>float\<close>: Python
  converts the integer to binary64 and multiplies there, rounding to nearest, ties to
  even. The numbers are modelled by the rationals they denote. \<open>binary64\<close> rounds a
  rational to 53 significant bits; the exponent range is not bounded, so the model is
  that of Python for magnitudes in the normal range of the format (below \<open>2^1024\<close>).
  Python compares an \<open>int\<close> with a \<open>float\<close> by their exact values.
\<close>

fun ilog2 :: "nat \<Rightarrow> nat" where
  "ilog2 n = (if n < 2 then 0 else Suc (ilog2 (n div 2)))"

declare ilog2.simps [simp del]

text \<open>The exponent \<open>e\<close> with \<open>2^e \<le> x < 2^(e+1)\<close>, for \<open>x > 0\<close>.\<close>

definition exponent :: "rat \<Rightarrow> int" where
  "exponent x =
     (if 1 \<le> x then int (ilog2 (nat \<lfloor>x\<rfloor>))
      else (let k = int (ilog2 (nat \<lfloor>1 / x\<rfloor>))
            in if x * 2 ^ nat k = 1 then - k else - k - 1))"

definition round_half_even :: "rat \<Rightarrow> int" where
  "round_half_even y =
     (let n = \<lfloor>y\<rfloor>; r = y - of_int n
      in if r < 1 / 2 then n
         else if 1 / 2 < r then n + 1
         else if even n then n else n + 1)"

definition binary64 :: "rat \<Rightarrow> rat" where
  "binary64 x =
     (if x = 0 then 0
      else if x < 0 then - (let ulp = 2 powi (exponent (- x) - 52)
                            in of_int (round_half_even (- x / ulp)) * ulp)
      else (let ulp = 2 powi (exponent x - 52)
            in of_int (round_half_even (x / ulp)) * ulp))"

text \<open>The literal \<open>0.90\<close>: the binary64 number nearest to nine tenths.\<close>

definition float_0_90 :: rat where
  "float_0_90 = 8106479329266893 / 2 ^ 53"

text \<open>\<open>file_size > DOCUMENT_SIZE_THRESHOLD_BYTES * 0.90\<close>\<close>

definition over_size_limit :: "nat \<Rightarrow> nat \<Rightarrow> bool" where
  "over_size_limit threshold file_size =
     (binary64 (binary64 (of_nat threshold) * float_0_90) < of_nat file_size)"


section \<open>Patch body splitter\<close>

text \<open>
  \<open>_RX_HEADER_LINE_SEPARATOR.split(header)\<close>, the separator being a newline or a NUL
  followed by a colon.
\<close>

fun split_header_lines :: "string \<Rightarrow> string list" where
  "split_header_lines [] = [[]]"
| "split_header_lines [c] = [[c]]"
| "split_header_lines (c # d # cs) =
     (if (c = LF \<or> c = NUL) \<and> d = CHR '':'' then [] # split_header_lines cs
      else (case split_header_lines (d # cs) of
              [] \<Rightarrow> [[c]]
            | piece # pieces \<Rightarrow> (c # piece) # pieces))"

text \<open>
  The lines \<open>_parse_patch_header\<close> hands to the line parser, one after the other:
  \<open>header[0]\<close> raises IndexError on an empty header; the first piece of the split is
  skipped and each other piece gets its colon back.
\<close>

definition header_lines :: "string \<Rightarrow> exn + string list" where
  "header_lines header =
     (case header of
        [] \<Rightarrow> Inl IndexError
      | c # _ \<Rightarrow>
          let header' = (if c = CHR '':'' then LF # header else header)
          in Inr (map (\<lambda>line. CHR '':'' # line) (tl (split_header_lines header'))))"

text \<open>
  \<open>re.split(r"^diff ", rest, flags=re.MULTILINE)\<close>: the flag tells whether the position
  is at the start of a line.
\<close>

function split_diffs_from :: "bool \<Rightarrow> string \<Rightarrow> string list" where
  "split_diffs_from at_line_start [] = [[]]"
| "split_diffs_from at_line_start (c # cs) =
     (if at_line_start \<and> prefix ''diff '' (c # cs)
      then [] # split_diffs_from False (drop 5 (c # cs))
      else (case split_diffs_from (c = LF) cs of
              [] \<Rightarrow> [[c]]
            | piece # pieces \<Rightarrow> (c # piece) # pieces))"
  by pat_completeness auto
termination
  by (relation "measure (\<lambda>(b, s). length s)") auto

definition split_diffs :: "string \<Rightarrow> string list" where
  "split_diffs rest = split_diffs_from True rest"

text \<open>
  The body of the loop over the pairs of \<open>_parse_patch\<close>: \<open>None\<close> where the code continues
  without yielding, \<open>Some\<close> of the CommitFile it yields. \<open>excluded\<close> is
  \<open>is_filepath_excluded\<close> applied to the commit's exclusion patterns and \<open>threshold\<close> is
  \<open>DOCUMENT_SIZE_THRESHOLD_BYTES\<close>.
\<close>

definition commit_file_of ::
  "nat \<Rightarrow> (string \<Rightarrow> bool) \<Rightarrow> string \<times> filemode \<Rightarrow> string \<Rightarrow> file option" where
  "commit_file_of threshold excluded name_and_mode diff =
     (case name_and_mode of (name, mode) \<Rightarrow>
        if excluded name then None
        else (case index_of (LF # ''@@'') diff of
                None \<Rightarrow> None
              | Some end_of_headers \<Rightarrow>
                  let doc = drop (end_of_headers + 1) diff;
                      file_size = length doc
                  in if over_size_limit threshold file_size then None
                     else if doc \<noteq> [] then Some (CommitFile doc name mode)
                     else None))"

text \<open>
  \<open>zip(names_and_modes, diffs)\<close> with the header parsed lazily: each round parses the
  next header line first (which may raise) and then asks for the next diff; the loop
  ends when either side is exhausted.
\<close>

fun pair_files ::
  "nat \<Rightarrow> (string \<Rightarrow> bool) \<Rightarrow> string list \<Rightarrow> string list \<Rightarrow> exn + file list" where
  "pair_files threshold excluded [] diff_list = Inr []"
| "pair_files threshold excluded (line # lines) diff_list =
     (case parse_patch_header_line line of
        Inl e \<Rightarrow> Inl e
      | Inr name_and_mode \<Rightarrow>
          (case diff_list of
             [] \<Rightarrow> Inr []
           | diff # more_diffs \<Rightarrow>
               (case pair_files threshold excluded lines more_diffs of
                  Inl e \<Rightarrow> Inl e
                | Inr fs \<Rightarrow>
                    Inr (case commit_file_of threshold excluded name_and_mode diff of
                           None \<Rightarrow> fs
                         | Some f \<Rightarrow> f # fs))))"

text \<open>One round of the loop over the commits of the patch.\<close>

definition parse_commit :: "nat \<Rightarrow> (string \<Rightarrow> bool) \<Rightarrow> string \<Rightarrow> exn + file list" where
  "parse_commit threshold excluded commit =
     (case split_once (NUL # ''diff '') commit of
        None \<Rightarrow> Inr []
      | Some (header, rest) \<Rightarrow>
          (case header_lines header of
             Inl e \<Rightarrow> Inl e
           | Inr lines \<Rightarrow> pair_files threshold excluded lines (split_diffs rest)))"

fun parse_commits :: "nat \<Rightarrow> (string \<Rightarrow> bool) \<Rightarrow> string list \<Rightarrow> exn + file list" where
  "parse_commits threshold excluded [] = Inr []"
| "parse_commits threshold excluded (commit # commits) =
     (case parse_commit threshold excluded commit of
        Inl e \<Rightarrow> Inl e
      | Inr fs \<Rightarrow>
          (case parse_commits threshold excluded commits of
             Inl e \<Rightarrow> Inl e
           | Inr more_files \<Rightarrow> Inr (fs @ more_files)))"

text \<open>
  \<open>_parse_patch\<close>, read to its end: the files it yields, or the exception that stops it.
\<close>

definition parse_patch :: "nat \<Rightarrow> (string \<Rightarrow> bool) \<Rightarrow> string \<Rightarrow> exn + file list" where
  "parse_patch threshold excluded patch =
     parse_commits threshold excluded (split (NUL # ''commit '') patch)"

text \<open>
  The header of a sub-patch parsed to its end, as the spec's pairing sees it: every line
  parsed, or the first exception.
\<close>

fun parse_lines :: "string list \<Rightarrow> exn + (string \<times> filemode) list" where
  "parse_lines [] = Inr []"
| "parse_lines (line # lines) =
     (case parse_patch_header_line line of
        Inl e \<Rightarrow> Inl e
      | Inr name_and_mode \<Rightarrow>
          (case parse_lines lines of
             Inl e \<Rightarrow> Inl e
           | Inr rest \<Rightarrow> Inr (name_and_mode # rest)))"


section \<open>Commit\<close>

record commit_information =
  author :: string
  email :: string
  date :: string

text \<open>
  What a Commit reaches outside this file: \<open>shell\<close> runs the external git process on an
  argument list and returns its output, \<open>GIT_PATH\<close> is the path of the git program,
  \<open>header_info_search\<close> is \<open>REGEX_HEADER_INFO.search\<close> followed by \<open>groupdict\<close>,
  \<open>is_filepath_excluded\<close> is the exclusion predicate over the patterns \<open>'x\<close>, and
  \<open>DOCUMENT_SIZE_THRESHOLD_BYTES\<close> is the API's maximum size of a document.
\<close>

record 'x git_env =
  shell :: "string list \<Rightarrow> string"
  GIT_PATH :: string
  header_info_search :: "string \<Rightarrow> commit_information option"
  is_filepath_excluded :: "string \<Rightarrow> 'x \<Rightarrow> bool"
  DOCUMENT_SIZE_THRESHOLD_BYTES :: nat

text \<open>
  The fields of a Commit: \<open>patch_memo\<close>, \<open>files_memo\<close> and \<open>info_memo\<close> are \<open>_patch\<close>,
  \<open>_files\<close> and \<open>_info\<close>. \<open>events\<close> is not a field of the class: it records, in order,
  each run of the external git process and each realization of the parse
  (\<open>list(self.get_files())\<close>), so that they can be counted.
\<close>

datatype event = GitInvoked "string list" | PatchParsed

record 'x commit =
  sha :: "string option"
  patch_memo :: "string option"
  files_memo :: "file list"
  exclusion_regexes :: 'x
  info_memo :: "commit_information option"
  events :: "event list"

definition new_commit :: "string option \<Rightarrow> 'x \<Rightarrow> 'x commit" where
  "new_commit sha_arg regexes =
     \<lparr>sha = sha_arg, patch_memo = None, files_memo = [], exclusion_regexes = regexes,
      info_memo = None, events = []\<rparr>"

definition common_args :: "string list" where
  "common_args = [''--raw'', ''-z'', ''--patch'', ''-m'']"

text \<open>\<open>if self.sha\<close>: the sha is neither \<open>None\<close> nor the empty string.\<close>

definition git_args :: "'x git_env \<Rightarrow> string option \<Rightarrow> string list" where
  "git_args env sha_opt =
     (case sha_opt of
        None \<Rightarrow> [GIT_PATH env, ''diff'', ''--cached''] @ common_args
      | Some s \<Rightarrow>
          if s \<noteq> [] then [GIT_PATH env, ''show'', s] @ common_args
          else [GIT_PATH env, ''diff'', ''--cached''] @ common_args)"

text \<open>The property \<open>patch\<close>: the value read and the commit after the read.\<close>

definition patch :: "'x git_env \<Rightarrow> 'x commit \<Rightarrow> string \<times> 'x commit" where
  "patch env self =
     (case patch_memo self of
        None \<Rightarrow>
          (let args = git_args env (sha self);
               out = shell env args
           in (out, self\<lparr>patch_memo := Some out, events := events self @ [GitInvoked args]\<rparr>))
      | Some p \<Rightarrow> (p, self))"

text \<open>The property \<open>info\<close>.\<close>

definition info :: "'x git_env \<Rightarrow> 'x commit \<Rightarrow> commit_information \<times> 'x commit" where
  "info env self =
     (case info_memo self of
        None \<Rightarrow>
          (let (p, self1) = patch env self;
               i = (case header_info_search env p of
                      None \<Rightarrow> \<lparr>author = ''unknown'', email = [], date = []\<rparr>
                    | Some m \<Rightarrow> m)
           in (i, self1\<lparr>info_memo := Some i\<rparr>))
      | Some i \<Rightarrow> (i, self))"

text \<open>
  \<open>get_files\<close>, read to its end by \<open>list\<close>: any exception of the parse is replaced by
  PatchParseError with the sha and the text of the exception.
\<close>

definition sha_text :: "string option \<Rightarrow> string" where
  "sha_text sha_opt = (case sha_opt of None \<Rightarrow> ''None'' | Some s \<Rightarrow> s)"

definition patch_parse_error :: "string option \<Rightarrow> exn \<Rightarrow> exn" where
  "patch_parse_error sha_opt exc =
     PatchParseError (''Could not parse patch (sha: '' @ sha_text sha_opt @ ''): '' @ exn_str exc)"

definition get_files :: "'x git_env \<Rightarrow> 'x commit \<Rightarrow> (exn + file list) \<times> 'x commit" where
  "get_files env self =
     (let (p, self1) = patch env self;
          self2 = self1\<lparr>events := events self1 @ [PatchParsed]\<rparr>
      in case parse_patch (DOCUMENT_SIZE_THRESHOLD_BYTES env)
                (\<lambda>name. is_filepath_excluded env name (exclusion_regexes self)) p of
           Inl exc \<Rightarrow> (Inl (patch_parse_error (sha self) exc), self2)
         | Inr fs \<Rightarrow> (Inr fs, self2))"

text \<open>
  The property \<open>files\<close>: \<open>if not self._files\<close> holds while the stored list is empty.
  (The name \<open>files\<close> is the field of \<open>Error\<close> here; the property is \<open>commit_files\<close>.)
\<close>

definition commit_files :: "'x git_env \<Rightarrow> 'x commit \<Rightarrow> (exn + file list) \<times> 'x commit" where
  "commit_files env self =
     (if files_memo self = []
      then (case get_files env self of
              (Inl exc, self1) \<Rightarrow> (Inl exc, self1)
            | (Inr fs, self1) \<Rightarrow> (Inr fs, self1\<lparr>files_memo := fs\<rparr>))
      else (Inr (files_memo self), self))"

text \<open>A sequence of reads of the three properties, in order; the values read are dropped.\<close>

datatype accessor = Patch | Files | Info

definition read :: "'x git_env \<Rightarrow> accessor \<Rightarrow> 'x commit \<Rightarrow> 'x commit" where
  "read env a self =
     (case a of
        Patch \<Rightarrow> snd (patch env self)
      | Files \<Rightarrow> snd (commit_files env self)
      | Info \<Rightarrow> snd (info env self))"

definition reads :: "'x git_env \<Rightarrow> accessor list \<Rightarrow> 'x commit \<Rightarrow> 'x commit" where
  "reads env accesses self = fold (read env) accesses self"

definition git_invocations :: "'x commit \<Rightarrow> nat" where
  "git_invocations self = length (filter (\<lambda>e. e \<noteq> PatchParsed) (events self))"

definition parse_realizations :: "'x commit \<Rightarrow> nat" where
  "parse_realizations self = length (filter (\<lambda>e. e = PatchParsed) (events self))"


section \<open>Error classifier\<close>

text \<open>
  Modelled from the spec: the outcome of a remote scan, pygitguardian's
  \<open>MultiScanResult\<close> and \<open>Detail\<close>, is not part of this repository. It exposes a success
  flag, a status code that may be absent, a detail text and, on success, the list of the
  per-document scan results in the order of the documents; it is a tagged union of a
  success with its list and a failure with its optional status code and its detail text.
  The failure outcome that the collector synthesizes from an exception,
  \<open>Detail(detail=str(exception))\<close>, carries the text only: its status code is absent.
\<close>

record detail =
  status_code :: "int option"
  detail_text :: string

datatype 's outcome =
    MultiScanResult "'s list"
  | Detail detail

fun success :: "'s outcome \<Rightarrow> bool" where
  "success (MultiScanResult scan_results) = True"
| "success (Detail d) = False"

text \<open>
  \<open>literal_eval(detail.detail)\<close> either raises, or gives a value that is not a list, or
  gives a list; \<open>'v\<close> is the type of the items of the list. The diagnostics written to the
  error stream are kept as values, in the order they are written.
\<close>

datatype 'v evaluated = Raises | NotAList | ListValue "'v list"

datatype 'v diagnostic =
    ResultsMayBeIncomplete
  | AddToPathsIgnore nat
  | FileDetail string 'v
  | ChunkAffected "string list"
  | DetailText detail

text \<open>
  What the scanner reaches outside this file: the two filters over one file's scan
  result, the policy breaks of a scan result, \<open>literal_eval\<close> with the truth value of an
  item, and the API's maximum number of documents in a request.
\<close>

record ('s, 'p, 'v) scan_env =
  remove_ignored_from_result :: "'s \<Rightarrow> 's"
  remove_results_from_ignore_detectors :: "'s \<Rightarrow> 's"
  has_policy_breaks :: "'s \<Rightarrow> bool"
  policy_breaks :: "'s \<Rightarrow> 'p list"
  literal_eval :: "string \<Rightarrow> 'v evaluated"
  truthy :: "'v \<Rightarrow> bool"
  MULTI_DOCUMENT_LIMIT :: nat

text \<open>
  The loop \<open>for i, inner_detail in enumerate(details)\<close>, from index \<open>i\<close> on: the lines
  written, and IndexError when \<open>chunk[i]\<close> is read past the end of the chunk.
\<close>

fun report_details ::
  "('v \<Rightarrow> bool) \<Rightarrow> file list \<Rightarrow> nat \<Rightarrow> 'v list \<Rightarrow> 'v diagnostic list \<times> exn option" where
  "report_details is_true chunk i [] = ([], None)"
| "report_details is_true chunk i (inner_detail # details) =
     (if is_true inner_detail
      then (if i < length chunk
            then (let (written, ending) = report_details is_true chunk (i + 1) details
                  in (FileDetail (filename (chunk ! i)) inner_detail # written, ending))
            else ([], Some IndexError))
      else report_details is_true chunk (i + 1) details)"

text \<open>
  \<open>handle_scan_chunk_error\<close>: the diagnostics written and how the call ends, \<open>None\<close> for
  a normal return and \<open>Some e\<close> when it raises \<open>e\<close>.
\<close>

definition handle_scan_chunk_error ::
  "('s, 'p, 'v) scan_env \<Rightarrow> detail \<Rightarrow> file list \<Rightarrow> 'v diagnostic list \<times> exn option" where
  "handle_scan_chunk_error env d chunk =
     (if status_code d = Some 401 then ([], Some (UsageError (detail_text d)))
      else if status_code d = None
      then ([], Some (ClickException
                        (''Error scanning, network error occurred: '' @ detail_text d)))
      else (case literal_eval env (detail_text d) of
              ListValue details \<Rightarrow>
                if details \<noteq> []
                then (let (written, ending) = report_details (truthy env) chunk 0 details
                      in (ResultsMayBeIncomplete # AddToPathsIgnore (length details) # written,
                          ending))
                else ([ResultsMayBeIncomplete, ChunkAffected (map filename chunk),
                       DetailText d], None)
            | _ \<Rightarrow>
                ([ResultsMayBeIncomplete, ChunkAffected (map filename chunk),
                  DetailText d], None)))"


section \<open>Scanner\<close>

text \<open>
  \<open>_start_scans\<close>: the chunks in the order they are submitted; \<open>chunk\<close> is the chunk being
  filled. A file whose document is empty is set aside. The progress callback is not
  modelled.
\<close>

fun start_scans_from :: "nat \<Rightarrow> file list \<Rightarrow> file list \<Rightarrow> file list list" where
  "start_scans_from limit chunk [] = (if chunk \<noteq> [] then [chunk] else [])"
| "start_scans_from limit chunk (f # fs) =
     (if document f \<noteq> []
      then (let chunk' = chunk @ [f]
            in if length chunk' = limit then chunk' # start_scans_from limit [] fs
               else start_scans_from limit chunk' fs)
      else start_scans_from limit chunk fs)"

definition start_scans :: "nat \<Rightarrow> file list \<Rightarrow> file list list" where
  "start_scans limit fs = start_scans_from limit [] fs"

text \<open>
  A completed future: \<open>future.exception()\<close> is the exception the submission raised, with
  its text, or \<open>future.result()\<close> is the outcome it returned.
\<close>

datatype 's future = Raised string | Returned "'s outcome"

text \<open>
  The dedup cache is kept as the list of the calls made on it. The state of the collecting
  loop is the two lists being filled and the cache.
\<close>

datatype 'p cache_call = Purge | AddFoundPolicyBreak 'p string | Save

record ('s, 'p) collected =
  found :: "'s result list"
  failed :: "error list"
  cache :: "'p cache_call list"

text \<open>The loop over \<open>zip(chunk, scan.scan_results)\<close>.\<close>

fun collect_files ::
  "('s, 'p, 'v) scan_env \<Rightarrow> (file \<times> 's) list \<Rightarrow> ('s, 'p) collected \<Rightarrow> ('s, 'p) collected" where
  "collect_files env [] st = st"
| "collect_files env ((f, scanned0) # pairs) st =
     (let scanned = remove_results_from_ignore_detectors env
                      (remove_ignored_from_result env scanned0)
      in if has_policy_breaks env scanned
         then collect_files env pairs
                (st\<lparr>cache := cache st @
                              map (\<lambda>policy_break. AddFoundPolicyBreak policy_break (filename f))
                                (policy_breaks env scanned),
                    found := found st @
                               [\<lparr>content = document f, result_filemode = filemode f,
                                 result_filename = filename f, scan = scanned\<rparr>]\<rparr>)
         else collect_files env pairs st)"

text \<open>
  The loop over the completed futures, in their order of completion: \<open>Inl e\<close> when the
  error classifier raises \<open>e\<close>, which ends \<open>_collect_results\<close>. \<open>if not scan.success\<close>
  is the case \<open>Detail\<close>.
\<close>

fun collect_futures ::
  "('s, 'p, 'v) scan_env \<Rightarrow> (file list \<times> 's future) list \<Rightarrow> ('s, 'p) collected
     \<Rightarrow> exn + ('s, 'p) collected" where
  "collect_futures env [] st = Inr st"
| "collect_futures env ((chunk, fut) # completed) st =
     (let (scanned, st1) =
            (case fut of
               Returned outcome \<Rightarrow> (outcome, st)
             | Raised text \<Rightarrow>
                 (Detail \<lparr>status_code = None, detail_text = text\<rparr>,
                  st\<lparr>failed := failed st @
                         [\<lparr>files = map (\<lambda>f. (filename f, filemode f)) chunk,
                           description = text\<rparr>]\<rparr>))
      in case scanned of
           Detail d \<Rightarrow>
             (case snd (handle_scan_chunk_error env d chunk) of
                Some e \<Rightarrow> Inl e
              | None \<Rightarrow> collect_futures env completed st1)
         | MultiScanResult scan_results \<Rightarrow>
             collect_futures env completed (collect_files env (zip chunk scan_results) st1))"

text \<open>
  \<open>_collect_results\<close>: the Results returned and the calls made on the cache, or the
  exception raised.
\<close>

definition collect_results ::
  "('s, 'p, 'v) scan_env \<Rightarrow> (file list \<times> 's future) list
     \<Rightarrow> exn + ('s results \<times> 'p cache_call list)" where
  "collect_results env completed =
     (case collect_futures env completed \<lparr>found = [], failed = [], cache = [Purge]\<rparr> of
        Inl e \<Rightarrow> Inl e
      | Inr st \<Rightarrow> Inr (\<lparr>results = found st, errors = failed st\<rparr>, cache st @ [Save]))"

text \<open>
  \<open>Scanner.scan\<close>: \<open>client\<close> is the remote call on one chunk, as the future of its
  submission ends, and \<open>as_completed\<close> puts the submitted chunks in their order of
  completion.
\<close>

definition scanner_scan ::
  "('s, 'p, 'v) scan_env \<Rightarrow> (file list \<Rightarrow> 's future)
     \<Rightarrow> ((file list \<times> 's future) list \<Rightarrow> (file list \<times> 's future) list)
     \<Rightarrow> file list \<Rightarrow> exn + ('s results \<times> 'p cache_call list)" where
  "scanner_scan env client as_completed fs =
     (let chunks_for_futures =
            map (\<lambda>chunk. (chunk, client chunk)) (start_scans (MULTI_DOCUMENT_LIMIT env) fs)
      in collect_results env (as_completed chunks_for_futures))"


text \<open>A submission that came back with the per-document results.\<close>

definition succeeded :: "'s future \<Rightarrow> bool" where
  "succeeded fut = (case fut of Returned (MultiScanResult scan_results) \<Rightarrow> True | _ \<Rightarrow> False)"


section \<open>Reference inputs\<close>

text \<open>Header lines as \<open>git show --raw -z\<close> prints them: a merge, a rename, an unknown status.\<close>

definition merge_line :: string where
  "merge_line =
     ''::100644 100644 100644 fabadb8 cc95eb0 4866510 DM'' @ [NUL] @ ''desc.c'' @ [NUL]"

definition rename_line :: string where
  "rename_line =
     '':100644 100644 abcd123 1234567 R86'' @ [NUL] @ ''file1'' @ [NUL] @ ''file3'' @ [NUL]"

definition unknown_line :: string where
  "unknown_line = '':100644 100644 bcd1234 0123456 X'' @ [NUL] @ ''file0'' @ [NUL]"

text \<open>Report nodes: a collection nested two levels deep, and one with an empty child.\<close>

definition sample_result :: "string \<Rightarrow> unit result" where
  "sample_result name =
     \<lparr>content = ''token'', result_filemode = FILE, result_filename = name, scan = ()\<rparr>"

definition leaf :: "string \<Rightarrow> unit results option \<Rightarrow> (unit, unit) scan_collection" where
  "leaf i r = ScanCollection i ''commit'' r None None None None"

definition grandchild :: "(unit, unit) scan_collection" where
  "grandchild = leaf ''c'' (Some \<lparr>results = [sample_result ''c.py''], errors = []\<rparr>)"

definition middle_child :: "(unit, unit) scan_collection" where
  "middle_child =
     ScanCollection ''b'' ''commit-range''
       (Some \<lparr>results = [sample_result ''b.py''], errors = []\<rparr>)
       (Some [grandchild]) None None None"

definition nested_collection :: "(unit, unit) scan_collection" where
  "nested_collection =
     ScanCollection ''a'' ''commit-range''
       (Some \<lparr>results = [sample_result ''a.py''], errors = []\<rparr>)
       (Some [middle_child]) None None None"

definition empty_child :: "(unit, unit) scan_collection" where
  "empty_child = leaf ''e'' (Some \<lparr>results = [], errors = []\<rparr>)"

definition flat_collection :: "(unit, unit) scan_collection" where
  "flat_collection =
     ScanCollection ''a'' ''commit-range'' None
       (Some [empty_child, leaf ''n'' None, grandchild]) None None None"

text \<open>A sub-patch whose header names two files and whose body holds one diff.\<close>

definition short_header :: string where
  "short_header =
     ''commit 9537a'' @ [LF] @ [LF] @
     '':100644 100644 bcd1234 0123456 M'' @ [NUL] @ ''file1'' @ [NUL] @
     '':000000 100644 0000000 1234567 A'' @ [NUL] @ ''file2'' @ [NUL]"

definition short_rest :: string where
  "short_rest =
     ''--git a/file1 b/file1'' @ [LF] @ ''+++ b/file1'' @ [LF] @
     ''@@ -1 +1 @@'' @ [LF] @ ''+abcd'' @ [LF]"

definition short_commit :: string where
  "short_commit = short_header @ [NUL] @ ''diff '' @ short_rest"

text \<open>An exclusion predicate that excludes no path.\<close>

definition no_exclusion :: "string \<Rightarrow> bool" where
  "no_exclusion name = False"

text \<open>Two diffs, with a document of 18 and of 19 bytes.\<close>

definition diff_18 :: string where
  "diff_18 = ''--git a/f b/f'' @ [LF] @ ''@@ -1 +1 @@'' @ [LF] @ ''+abcd'' @ [LF]"

definition diff_19 :: string where
  "diff_19 = ''--git a/f b/f'' @ [LF] @ ''@@ -1 +1 @@'' @ [LF] @ ''+abcde'' @ [LF]"

text \<open>A commit without file changes, and what a Commit reaches outside for it.\<close>

definition empty_commit_text :: string where
  "empty_commit_text = ''commit 3a1f'' @ [LF] @ ''Author: a <a@b.c>'' @ [LF]"

definition empty_commit_env :: "unit git_env" where
  "empty_commit_env =
     \<lparr>shell = (\<lambda>args. empty_commit_text),
      GIT_PATH = ''git'',
      header_info_search = (\<lambda>p. None),
      is_filepath_excluded = (\<lambda>name regexes. False),
      DOCUMENT_SIZE_THRESHOLD_BYTES = 1048576\<rparr>"

text \<open>Files to scan and what a Scanner reaches outside for them.\<close>

definition sample_file :: "string \<Rightarrow> file" where
  "sample_file name = \<lparr>document = ''token = 1'', filename = name, filemode = FILE\<rparr>"

definition sample_env :: "(unit, unit, string) scan_env" where
  "sample_env =
     \<lparr>remove_ignored_from_result = (\<lambda>scanned. scanned),
      remove_results_from_ignore_detectors = (\<lambda>scanned. scanned),
      has_policy_breaks = (\<lambda>scanned. False),
      policy_breaks = (\<lambda>scanned. []),
      literal_eval = (\<lambda>text. if text = ''['too large', 'too large']''
                               then ListValue [''too large'', ''too large''] else Raises),
      truthy = (\<lambda>item. item \<noteq> []),
      MULTI_DOCUMENT_LIMIT = 20\<rparr>"

text \<open>A remote call that raises for the chunk holding \<open>a.py\<close> and succeeds otherwise.\<close>

definition failing_client :: "file list \<Rightarrow> unit future" where
  "failing_client chunk =
     (if ''a.py'' \<in> set (map filename chunk) then Raised ''connection reset''
      else Returned (MultiScanResult (map (\<lambda>f. ()) chunk)))"

text \<open>
  The memo fields of a Commit and the count of git runs agree: no patch stored means
  nothing stored and no run, a stored patch means one run.
\<close>

definition memo_inv :: "'x commit \<Rightarrow> bool" where
  "memo_inv self \<longleftrightarrow>
     (case patch_memo self of
        None \<Rightarrow> git_invocations self = 0 \<and> files_memo self = [] \<and> info_memo self = None
      | Some p \<Rightarrow> git_invocations self = 1)"

section \<open>Patch header parser: properties\<close>

lemmas header_eval =
  header_fields_def rstrip_def header_status_def rsplit_last_def effective_name_def

lemma classify_first_match:
  "(if CHR ''M'' \<in> set status then Inr (name, MODIFY)
    else if CHR ''C'' \<in> set status then Inr (name, NEW)
    else if CHR ''A'' \<in> set status then Inr (name, NEW)
    else if CHR ''T'' \<in> set status then Inr (name, NEW)
    else if CHR ''R'' \<in> set status then Inr (name, RENAME)
    else if CHR ''D'' \<in> set status then Inr (name, DELETE)
    else Inl e) =
   (case first_match status of Some mode \<Rightarrow> Inr (name, mode) | None \<Rightarrow> Inl e)"
  by (simp add: first_match_def status_priority_def)

text \<open>
  C2. For a header line whose status field has two letters one of which is \<open>M\<close>, the
  parser returns MODIFY with the effective name, whatever the other letter is; and for
  every status the result is that of the first letter of the priority table
  Modify, Copy, Add, Type-change, Rename, Delete that occurs in the status, or the
  ValueError when none occurs.
\<close>

theorem merge_priority:
  assumes "header_fields line = Inr (pfx, name, rest)"
  shows "(\<forall>a b. header_status pfx = [a, b] \<and> (a = CHR ''M'' \<or> b = CHR ''M'') \<longrightarrow>
            parse_patch_header_line line = Inr (effective_name name rest, MODIFY))
       \<and> parse_patch_header_line line =
           (case first_match (header_status pfx) of
              Some mode \<Rightarrow> Inr (effective_name name rest, mode)
            | None \<Rightarrow> Inl (ValueError (unknown_status_message line (header_status pfx))))"
proof (intro conjI allI impI)
  fix a b
  assume "header_status pfx = [a, b] \<and> (a = CHR ''M'' \<or> b = CHR ''M'')"
  then have "CHR ''M'' \<in> set (header_status pfx)" by auto
  with assms show "parse_patch_header_line line = Inr (effective_name name rest, MODIFY)"
    by (simp add: parse_patch_header_line_def)
next
  show "parse_patch_header_line line =
           (case first_match (header_status pfx) of
              Some mode \<Rightarrow> Inr (effective_name name rest, mode)
            | None \<Rightarrow> Inl (ValueError (unknown_status_message line (header_status pfx))))"
    using assms by (simp add: parse_patch_header_line_def Let_def classify_first_match)
qed

text \<open>The merge line of a file deleted on one parent and modified on the other.\<close>

theorem merge_priority_witness:
  "header_fields merge_line =
     Inr (''::100644 100644 100644 fabadb8 cc95eb0 4866510 DM'', ''desc.c'', [])
   \<and> header_status ''::100644 100644 100644 fabadb8 cc95eb0 4866510 DM'' = ''DM''
   \<and> parse_patch_header_line merge_line = Inr (''desc.c'', MODIFY)"
proof -
  have f: "header_fields merge_line =
             Inr (''::100644 100644 100644 fabadb8 cc95eb0 4866510 DM'', ''desc.c'', [])"
    by (simp add: merge_line_def header_eval)
  have s: "header_status ''::100644 100644 100644 fabadb8 cc95eb0 4866510 DM'' = ''DM''"
    by (simp add: header_eval)
  from merge_priority [OF f] s
  have "parse_patch_header_line merge_line = Inr (effective_name ''desc.c'' [], MODIFY)"
    by blast
  with f s show ?thesis by (simp add: effective_name_def)
qed

lemma sublist_message: "sublist line (pre @ line @ post)"
  by (auto simp: sublist_def)

text \<open>
  C3. For a header line with a single status letter, the parser returns the filemode of
  the table M: MODIFY, C: NEW, A: NEW, T: NEW, R: RENAME, D: DELETE; for any other letter
  it returns no filemode and raises the ValueError whose message holds the line, which
  \<open>Commit.get_files\<close> turns into a PatchParseError whose message holds the line too.
\<close>

theorem single_letter_table:
  assumes "header_fields line = Inr (pfx, name, rest)" and "header_status pfx = [c]"
  shows "(c = CHR ''M'' \<longrightarrow> parse_patch_header_line line = Inr (effective_name name rest, MODIFY))
       \<and> (c = CHR ''C'' \<longrightarrow> parse_patch_header_line line = Inr (effective_name name rest, NEW))
       \<and> (c = CHR ''A'' \<longrightarrow> parse_patch_header_line line = Inr (effective_name name rest, NEW))
       \<and> (c = CHR ''T'' \<longrightarrow> parse_patch_header_line line = Inr (effective_name name rest, NEW))
       \<and> (c = CHR ''R'' \<longrightarrow> parse_patch_header_line line = Inr (effective_name name rest, RENAME))
       \<and> (c = CHR ''D'' \<longrightarrow> parse_patch_header_line line = Inr (effective_name name rest, DELETE))
       \<and> (c \<notin> set ''MCATRD'' \<longrightarrow>
            parse_patch_header_line line = Inl (ValueError (unknown_status_message line [c]))
            \<and> sublist line (exn_str (ValueError (unknown_status_message line [c])))
            \<and> (\<forall>sha_opt. \<exists>text.
                  patch_parse_error sha_opt (ValueError (unknown_status_message line [c])) =
                    PatchParseError text \<and> sublist line text))"
proof -
  have "sublist line (unknown_status_message line [c])"
    unfolding unknown_status_message_def by (rule sublist_message)
  moreover have "sublist line (''Could not parse patch (sha: '' @ sha_text sha_opt @ ''): '' @
                   unknown_status_message line [c])" for sha_opt
    unfolding unknown_status_message_def
    using sublist_message [of line
        "''Could not parse patch (sha: '' @ sha_text sha_opt @ ''): '' @ ''Can't parse header line ''"
        "'': unknown status '' @ [c]"]
    by simp
  ultimately show ?thesis
    using assms by (auto simp: parse_patch_header_line_def patch_parse_error_def Let_def)
qed

text \<open>A rename with its similarity score, and a line with the letter \<open>X\<close>.\<close>

theorem single_letter_table_witness:
  "header_fields rename_line =
     Inr ('':100644 100644 abcd123 1234567 R86'', ''file1'', [''file3''])
   \<and> header_status '':100644 100644 abcd123 1234567 R86'' = ''R''
   \<and> parse_patch_header_line rename_line = Inr (''file3'', RENAME)
   \<and> header_fields unknown_line = Inr ('':100644 100644 bcd1234 0123456 X'', ''file0'', [])
   \<and> header_status '':100644 100644 bcd1234 0123456 X'' = ''X''
   \<and> CHR ''X'' \<notin> set ''MCATRD''
   \<and> parse_patch_header_line unknown_line =
       Inl (ValueError (unknown_status_message unknown_line ''X''))"
proof -
  have f1: "header_fields rename_line =
              Inr ('':100644 100644 abcd123 1234567 R86'', ''file1'', [''file3''])"
    by (simp add: rename_line_def header_eval)
  have s1: "header_status '':100644 100644 abcd123 1234567 R86'' = ''R''"
    by (simp add: header_eval)
  have f2: "header_fields unknown_line =
              Inr ('':100644 100644 bcd1234 0123456 X'', ''file0'', [])"
    by (simp add: unknown_line_def header_eval)
  have s2: "header_status '':100644 100644 bcd1234 0123456 X'' = ''X''"
    by (simp add: header_eval)
  have x: "CHR ''X'' \<notin> set ''MCATRD''" by simp
  from single_letter_table [OF f1 s1]
  have r1: "parse_patch_header_line rename_line = Inr (''file3'', RENAME)"
    by (simp add: effective_name_def)
  from single_letter_table [OF f2 s2] x
  have r2: "parse_patch_header_line unknown_line =
              Inl (ValueError (unknown_status_message unknown_line ''X''))"
    by blast
  from f1 s1 r1 f2 s2 x r2 show ?thesis by blast
qed


section \<open>Results and ScanCollection: properties\<close>

text \<open>
  C10. \<open>Results.from_exception(exc)\<close> has no result and exactly one error; that error
  names no file and its description is \<open>str(exc)\<close>.
\<close>

theorem from_exception_failure_only:
  "from_exception exc = \<lparr>results = [], errors = [\<lparr>files = [], description = exn_str exc\<rparr>]\<rparr>
   \<and> results (from_exception exc) = []
   \<and> length (errors (from_exception exc)) = 1
   \<and> files (hd (errors (from_exception exc))) = []
   \<and> description (hd (errors (from_exception exc))) = exn_str exc"
  by (simp add: from_exception_def)

lemma yield_from_scans_present:
  "\<forall>c \<in> set cs. sc_results c \<noteq> None \<Longrightarrow>
   yield_from_scans cs = (concat (map (\<lambda>c. results (the (sc_results c))) cs), None)"
  by (induction cs) auto

text \<open>
  C1, as the code has it. For a node with a non-empty list of children, each of which
  carries a Results, \<open>get_all_results\<close> yields the node's own results (none when the node
  has no Results), then the results of its children in list order, and ends normally;
  what lies below the children is not visited.
\<close>

theorem get_all_results_children:
  assumes "scans node = Some children" and "children \<noteq> []"
    and "\<forall>c \<in> set children. sc_results c \<noteq> None"
  shows "get_all_results node =
           ((case sc_results node of None \<Rightarrow> [] | Some r \<Rightarrow> results r) @
            concat (map (\<lambda>c. results (the (sc_results c))) children), None)"
  using assms by (simp add: get_all_results_def yield_from_scans_present)

theorem get_all_results_children_witness:
  "scans nested_collection = Some [middle_child]
   \<and> [middle_child] \<noteq> []
   \<and> sc_results middle_child \<noteq> None
   \<and> get_all_results nested_collection = ([sample_result ''a.py'', sample_result ''b.py''], None)"
  using get_all_results_children [of nested_collection "[middle_child]"]
  by (simp add: nested_collection_def middle_child_def)

text \<open>
  C1 as stated fails on a collection nested two levels deep: the result of the grandchild
  belongs to the subtree and is not yielded.
\<close>

theorem get_all_results_counterexample:
  "get_all_results nested_collection = ([sample_result ''a.py'', sample_result ''b.py''], None)
   \<and> results_of_subtree nested_collection =
       [sample_result ''a.py'', sample_result ''b.py'', sample_result ''c.py'']
   \<and> fst (get_all_results nested_collection) \<noteq> results_of_subtree nested_collection"
  by (simp add: get_all_results_def nested_collection_def middle_child_def grandchild_def leaf_def)

text \<open>
  Outside the amended C1: a child without Results. The children's results are read
  without the test that guards the node's own, and the read raises AttributeError.
\<close>

lemma get_all_results_absent_child:
  "get_all_results flat_collection = ([], Some AttributeError)"
  by (simp add: get_all_results_def flat_collection_def empty_child_def leaf_def)

text \<open>
  C7, as the code has it. For a node with a non-empty list of children,
  \<open>scans_with_results\<close> is the list of the children that carry a Results, in list order;
  a child whose Results has no result and no error is among them.
\<close>

theorem scans_with_results_present:
  assumes "scans node = Some children" and "children \<noteq> []"
  shows "scans_with_results node = filter (\<lambda>c. sc_results c \<noteq> None) children
       \<and> (\<forall>c \<in> set children. sc_results c = Some \<lparr>results = [], errors = []\<rparr> \<longrightarrow>
             c \<in> set (scans_with_results node))"
  using assms by (auto simp: scans_with_results_def)

theorem scans_with_results_present_witness:
  "scans flat_collection = Some [empty_child, leaf ''n'' None, grandchild]
   \<and> [empty_child, leaf ''n'' None, grandchild] \<noteq> []
   \<and> sc_results empty_child = Some \<lparr>results = [], errors = []\<rparr>
   \<and> scans_with_results flat_collection = [empty_child, grandchild]
   \<and> empty_child \<in> set (scans_with_results flat_collection)"
  using scans_with_results_present [of flat_collection "[empty_child, leaf ''n'' None, grandchild]"]
  by (simp add: flat_collection_def empty_child_def grandchild_def leaf_def)

text \<open>
  C7 as stated fails on a child whose Results is empty: the child is returned, and the
  children with a non-empty Results are fewer.
\<close>

theorem scans_with_results_counterexample:
  "scans_with_results flat_collection = [empty_child, grandchild]
   \<and> filter results_nonempty [empty_child, leaf ''n'' None, grandchild] = [grandchild]
   \<and> \<not> results_nonempty empty_child
   \<and> empty_child \<in> set (scans_with_results flat_collection)"
  by (simp add: scans_with_results_def flat_collection_def empty_child_def grandchild_def
        leaf_def results_nonempty_def)


section \<open>The size limit: properties\<close>

lemma ilog2_less: "0 < k \<Longrightarrow> n < 2 ^ k \<Longrightarrow> ilog2 n < k"
proof (induction n arbitrary: k rule: ilog2.induct)
  case (1 n)
  show ?case
  proof (cases "n < 2")
    case True
    with "1.prems" show ?thesis by (simp add: ilog2.simps)
  next
    case False
    then obtain j where k: "k = Suc j" and j: "0 < j"
      using "1.prems" by (cases k; cases "k - 1") auto
    have "n div 2 < 2 ^ j" using "1.prems" k by auto
    with "1.IH" [OF False j] have "ilog2 (n div 2) < j" by simp
    with False k show ?thesis by (simp add: ilog2.simps [of n])
  qed
qed

lemma ilog2_le: "0 < n \<Longrightarrow> 2 ^ ilog2 n \<le> n"
proof (induction n rule: ilog2.induct)
  case (1 n)
  show ?case
  proof (cases "n < 2")
    case True
    with "1.prems" show ?thesis by (simp add: ilog2.simps)
  next
    case False
    then have "0 < n div 2" by simp
    with "1.IH" [OF False] have "2 ^ ilog2 (n div 2) \<le> n div 2" by simp
    then have "2 * 2 ^ ilog2 (n div 2) \<le> n" by simp
    with False show ?thesis by (simp add: ilog2.simps [of n])
  qed
qed

lemma ilog2_Suc_0: "ilog2 (Suc 0) = 0"
  by (subst ilog2.simps) simp

lemma exponent_le_52:
  assumes "1 \<le> x" and "x < 2 ^ 53"
  shows "exponent x \<le> 52"
proof -
  have "\<lfloor>x\<rfloor> < 2 ^ 53" using assms(2) by (simp add: floor_less_iff)
  moreover have "0 \<le> \<lfloor>x\<rfloor>" using assms(1) by simp
  ultimately have "nat \<lfloor>x\<rfloor> < 2 ^ 53" by (simp add: nat_less_iff)
  then have "ilog2 (nat \<lfloor>x\<rfloor>) < 53" by (intro ilog2_less) simp_all
  with assms(1) show ?thesis by (simp add: exponent_def)
qed

lemma ulp_small:
  assumes "e \<le> 52"
  shows "(2::rat) powi (e - 52) = 1 / 2 ^ nat (52 - e)"
proof -
  have "(2::rat) powi (e - 52) = 2 powi (- int (nat (52 - e)))" using assms by simp
  also have "\<dots> = inverse (2 ^ nat (52 - e))"
    by (simp only: power_int_minus power_int_of_nat)
  finally show ?thesis by (simp add: inverse_eq_divide)
qed

lemma round_half_even_ge: "\<lfloor>y\<rfloor> \<le> round_half_even y"
  by (simp add: round_half_even_def Let_def)

lemma round_half_even_le: "of_int (round_half_even y) \<le> y + 1 / 2"
proof (cases "y - of_int \<lfloor>y\<rfloor> < 1 / 2")
  case True
  have "of_int \<lfloor>y\<rfloor> \<le> y" by simp
  moreover have "round_half_even y = \<lfloor>y\<rfloor>"
    using True by (simp add: round_half_even_def Let_def)
  ultimately show ?thesis by linarith
next
  case False
  have "round_half_even y \<le> \<lfloor>y\<rfloor> + 1" by (simp add: round_half_even_def Let_def)
  then have "(of_int (round_half_even y) :: rat) \<le> of_int (\<lfloor>y\<rfloor> + 1)"
    by (simp only: of_int_le_iff)
  with False show ?thesis by simp
qed

lemma round_half_even_of_int: "round_half_even (of_int k) = k"
  by (simp add: round_half_even_def)

text \<open>Below \<open>2^53\<close> the spacing of the binary64 numbers is at most one.\<close>

lemma binary64_pos:
  assumes "1 \<le> x" and "x < 2 ^ 53"
  shows "binary64 x =
           of_int (round_half_even (x * 2 ^ nat (52 - exponent x))) / 2 ^ nat (52 - exponent x)"
  using assms ulp_small [OF exponent_le_52 [OF assms]]
  by (simp add: binary64_def Let_def)

lemma binary64_ge_int:
  assumes "1 \<le> x" and "x < 2 ^ 53" and "of_int N \<le> x"
  shows "of_int N \<le> binary64 x"
proof -
  define m where "m = nat (52 - exponent x)"
  have "(of_int (N * 2 ^ m) :: rat) \<le> x * 2 ^ m" using assms(3) by simp
  then have "N * 2 ^ m \<le> \<lfloor>x * 2 ^ m\<rfloor>" by (simp only: le_floor_iff)
  also have "\<dots> \<le> round_half_even (x * 2 ^ m)" by (rule round_half_even_ge)
  finally have "(of_int (N * 2 ^ m) :: rat) \<le> of_int (round_half_even (x * 2 ^ m))"
    by (simp only: of_int_le_iff)
  then have "(of_int N :: rat) \<le> of_int (round_half_even (x * 2 ^ m)) / 2 ^ m"
    by (simp add: pos_le_divide_eq)
  then show ?thesis using binary64_pos [OF assms(1,2)] by (simp add: m_def)
qed

lemma binary64_of_nat:
  assumes "T < 2 ^ 53"
  shows "binary64 (of_nat T) = of_nat T"
proof (cases "T = 0")
  case True
  then show ?thesis by (simp add: binary64_def)
next
  case False
  define x :: rat where "x = of_nat T"
  define m where "m = nat (52 - exponent x)"
  have x1: "1 \<le> x" using False by (simp add: x_def)
  have x2: "x < 2 ^ 53" using assms unfolding x_def
    by (metis of_nat_less_iff of_nat_numeral of_nat_power)
  have "x * 2 ^ m = of_int (int T * 2 ^ m)" by (simp add: x_def)
  then have "round_half_even (x * 2 ^ m) = int T * 2 ^ m"
    by (simp only: round_half_even_of_int)
  then have "binary64 x = x" using binary64_pos [OF x1 x2] by (simp add: m_def x_def)
  then show ?thesis by (simp add: x_def)
qed

text \<open>Half the spacing at \<open>x\<close> is at most \<open>x / 2^53\<close>.\<close>

lemma half_ulp_le:
  assumes "1 \<le> x" and "x < 2 ^ 53"
  shows "1 / (2 * 2 ^ nat (52 - exponent x)) \<le> x / 2 ^ 53"
proof -
  define j where "j = ilog2 (nat \<lfloor>x\<rfloor>)"
  have e: "exponent x = int j" using assms(1) by (simp add: exponent_def j_def)
  have j52: "j \<le> 52" using exponent_le_52 [OF assms] e by simp
  have pos: "0 < nat \<lfloor>x\<rfloor>" using assms(1) by simp
  have "(2::rat) ^ j = of_nat (2 ^ j)" by simp
  also have "\<dots> \<le> of_nat (nat \<lfloor>x\<rfloor>)"
    using ilog2_le [OF pos] unfolding j_def by (simp only: of_nat_le_iff)
  also have "\<dots> = of_int \<lfloor>x\<rfloor>" using assms(1) by simp
  also have "\<dots> \<le> x" by simp
  finally have low: "(2::rat) ^ j \<le> x" .
  have "(2::rat) ^ 53 = 2 * 2 ^ (52 - j) * 2 ^ j"
    using j52 by (simp add: power_add [symmetric])
  then have "1 / (2 * 2 ^ (52 - j)) = (2::rat) ^ j / 2 ^ 53" by (simp add: field_simps)
  also have "\<dots> \<le> x / 2 ^ 53" using low by (simp add: divide_right_mono)
  finally show ?thesis using e j52 by (simp add: nat_diff_distrib')
qed

lemma binary64_less_int:
  assumes "1 \<le> x" and "x < 2 ^ 53" and "x + x / 2 ^ 53 < of_int N"
  shows "binary64 x < of_int N"
proof -
  define m where "m = nat (52 - exponent x)"
  have h: "1 / (2 * 2 ^ m) \<le> x / 2 ^ 53"
    unfolding m_def by (rule half_ulp_le [OF assms(1,2)])
  have "of_int (round_half_even (x * 2 ^ m)) \<le> x * 2 ^ m + 1 / 2"
    by (rule round_half_even_le)
  also have "\<dots> = (x + 1 / (2 * 2 ^ m)) * 2 ^ m" by (simp add: algebra_simps)
  also have "\<dots> \<le> (x + x / 2 ^ 53) * 2 ^ m" using h by (intro mult_right_mono) simp_all
  also have "\<dots> < of_int N * 2 ^ m" using assms(3) by simp
  finally have "of_int (round_half_even (x * 2 ^ m)) / 2 ^ m < (of_int N :: rat)"
    by (simp add: pos_divide_less_eq)
  then show ?thesis using binary64_pos [OF assms(1,2)] by (simp add: m_def)
qed

lemma float_0_90_gap: "float_0_90 = 9 / 10 + 1 / (5 * 2 ^ 53)"
  by (simp add: float_0_90_def)

lemma exponent_float_0_90: "exponent float_0_90 = - 1"
proof -
  have "\<lfloor>1 / float_0_90\<rfloor> = 1" by (simp add: float_0_90_def floor_unique)
  then show ?thesis by (simp add: exponent_def float_0_90_def ilog2_Suc_0)
qed

lemma binary64_float_0_90: "binary64 float_0_90 = float_0_90"
proof -
  have u: "(2::rat) powi (- 1 - 52) = 1 / 2 ^ 53" using ulp_small [of "- 1"] by simp
  have "float_0_90 / (1 / 2 ^ 53) = of_int 8106479329266893" by (simp add: float_0_90_def)
  then have "round_half_even (float_0_90 / (1 / 2 ^ 53)) = 8106479329266893"
    by (simp only: round_half_even_of_int)
  moreover have "float_0_90 \<noteq> 0 \<and> \<not> float_0_90 < 0" by (simp add: float_0_90_def)
  ultimately show ?thesis
    by (simp add: binary64_def exponent_float_0_90 u Let_def) (simp add: float_0_90_def)
qed

text \<open>The constant taken for the literal \<open>0.90\<close> is what nine tenths rounds to.\<close>

lemma float_0_90_nearest: "binary64 (9 / 10) = float_0_90"
proof -
  have "\<lfloor>1 / (9 / 10 :: rat)\<rfloor> = 1" by (simp add: floor_unique)
  then have e: "exponent (9 / 10) = - 1" by (simp add: exponent_def ilog2_Suc_0)
  have u: "(2::rat) powi (- 1 - 52) = 1 / 2 ^ 53" using ulp_small [of "- 1"] by simp
  have f: "\<lfloor>9 / 10 / (1 / 2 ^ 53 :: rat)\<rfloor> = 8106479329266892"
    by (simp add: floor_unique)
  have "round_half_even (9 / 10 / (1 / 2 ^ 53)) = 8106479329266893"
    unfolding round_half_even_def Let_def f by simp
  then show ?thesis
    by (simp add: binary64_def e u Let_def float_0_90_def)
qed

text \<open>
  For a threshold below \<open>2^49\<close> the rounding of the product never moves the limit across
  an integer: the test is that of the exact nine tenths.
\<close>

lemma size_limit_exact:
  assumes T: "T < 2 ^ 49"
  shows "over_size_limit T n \<longleftrightarrow> 9 * T < 10 * n"
proof -
  have T53: "T < 2 ^ 53"
  proof -
    have "(2::nat) ^ 49 \<le> 2 ^ 53" by simp
    with T show ?thesis by linarith
  qed
  consider "T = 0" | "T = 1" | "2 \<le> T" by linarith
  then show ?thesis
  proof cases
    case 1
    then show ?thesis by (simp add: over_size_limit_def binary64_def)
  next
    case 2
    have "over_size_limit 1 n \<longleftrightarrow> float_0_90 < of_nat n"
      using binary64_of_nat [of 1] by (simp add: over_size_limit_def binary64_float_0_90)
    also have "\<dots> \<longleftrightarrow> 9 < 10 * n"
    proof (cases "n = 0")
      case True
      then show ?thesis by (simp add: float_0_90_def)
    next
      case False
      then have "(1::rat) \<le> of_nat n" by simp
      moreover have "float_0_90 < 1" by (simp add: float_0_90_def)
      ultimately show ?thesis using False by simp
    qed
    finally show ?thesis using 2 by simp
  next
    case 3
    define x :: rat where "x = of_nat T * float_0_90"
    have Tr: "(of_nat T :: rat) < 2 ^ 49" using T
      by (metis of_nat_less_iff of_nat_numeral of_nat_power)
    have T2: "(2::rat) \<le> of_nat T" using 3 by (metis of_nat_le_iff of_nat_numeral)
    have xe: "x = 9 / 10 * of_nat T + of_nat T / (5 * 2 ^ 53)"
      by (simp add: x_def float_0_90_gap algebra_simps)
    have x1: "1 \<le> x" using T2 by (simp add: xe)
    have x2: "x < 2 ^ 53" using Tr by (simp add: xe)
    have b: "binary64 (binary64 (of_nat T) * float_0_90) = binary64 x"
      by (simp add: binary64_of_nat [OF T53] x_def)
    show ?thesis
    proof
      assume "over_size_limit T n"
      then have less: "binary64 x < of_int (int n)" by (simp add: over_size_limit_def b)
      show "9 * T < 10 * n"
      proof (rule ccontr)
        assume "\<not> 9 * T < 10 * n"
        then have "10 * n \<le> 9 * T" by simp
        then have "(of_nat (10 * n) :: rat) \<le> of_nat (9 * T)" by (simp only: of_nat_le_iff)
        then have "(of_int (int n) :: rat) \<le> 9 / 10 * of_nat T" by simp
        also have "\<dots> \<le> x" using T2 by (simp add: xe)
        finally have "of_int (int n) \<le> binary64 x" by (rule binary64_ge_int [OF x1 x2])
        with less show False by simp
      qed
    next
      assume "9 * T < 10 * n"
      then have "9 * T + 1 \<le> 10 * n" by simp
      then have "(of_nat (9 * T + 1) :: rat) \<le> of_nat (10 * n)" by (simp only: of_nat_le_iff)
      then have n: "9 / 10 * of_nat T + 1 / 10 \<le> (of_nat n :: rat)" by simp
      have "x + x / 2 ^ 53 < 9 / 10 * of_nat T + 1 / 10" using Tr T2 unfolding xe by simp
      with n have "x + x / 2 ^ 53 < of_int (int n)" by simp
      then have "binary64 x < of_int (int n)" by (rule binary64_less_int [OF x1 x2])
      then show "over_size_limit T n" by (simp add: over_size_limit_def b)
    qed
  qed
qed

text \<open>With pygitguardian's threshold of one mebibyte: 943718 bytes pass, 943719 do not.\<close>

lemma size_limit_one_mebibyte: "over_size_limit 1048576 n \<longleftrightarrow> 943718 < n"
proof -
  have "over_size_limit 1048576 n \<longleftrightarrow> 9 * 1048576 < 10 * n"
    by (rule size_limit_exact) simp
  then show ?thesis by auto
qed


section \<open>Patch body splitter: properties\<close>

text \<open>
  C6. For a file that is not excluded and a diff with a hunk marker, the document being
  what follows the newline before the marker: the document is dropped exactly when ten
  times its length in bytes exceeds nine times the threshold; so a non-empty document of
  exactly nine tenths of the threshold is kept, and one a byte longer is dropped. The
  threshold is \<open>DOCUMENT_SIZE_THRESHOLD_BYTES\<close>, any number below \<open>2^49\<close>.
\<close>

theorem size_boundary:
  assumes "threshold < 2 ^ 49"
    and "\<not> excluded name"
    and "index_of (LF # ''@@'') diff = Some end_of_headers"
    and "doc = drop (end_of_headers + 1) diff"
    and "doc \<noteq> []"
  shows "(commit_file_of threshold excluded (name, mode) diff = None \<longleftrightarrow>
            9 * threshold < 10 * length doc)
       \<and> (10 * length doc = 9 * threshold \<longrightarrow>
            commit_file_of threshold excluded (name, mode) diff = Some (CommitFile doc name mode))
       \<and> (10 * length doc = 9 * threshold + 10 \<longrightarrow>
            commit_file_of threshold excluded (name, mode) diff = None)"
  using assms size_limit_exact [OF assms(1), of "length doc"]
  by (auto simp: commit_file_of_def Let_def)

text \<open>With a threshold of 20 bytes: a document of 18 bytes, and one of 19.\<close>

theorem size_boundary_witness:
  "(20::nat) < 2 ^ 49
   \<and> index_of (LF # ''@@'') diff_18 = Some 13
   \<and> length (drop (13 + 1) diff_18) = 18
   \<and> commit_file_of 20 no_exclusion (''f'', MODIFY) diff_18 =
       Some (CommitFile (drop (13 + 1) diff_18) ''f'' MODIFY)
   \<and> index_of (LF # ''@@'') diff_19 = Some 13
   \<and> length (drop (13 + 1) diff_19) = 19
   \<and> commit_file_of 20 no_exclusion (''f'', MODIFY) diff_19 = None"
proof -
  have t: "(20::nat) < 2 ^ 49" by simp
  have i18: "index_of (LF # ''@@'') diff_18 = Some 13" by (simp add: diff_18_def)
  have l18: "length (drop (13 + 1) diff_18) = 18" by (simp add: diff_18_def)
  have n18: "drop (13 + 1) diff_18 \<noteq> []" by (simp add: diff_18_def)
  have i19: "index_of (LF # ''@@'') diff_19 = Some 13" by (simp add: diff_19_def)
  have l19: "length (drop (13 + 1) diff_19) = 19" by (simp add: diff_19_def)
  have n19: "drop (13 + 1) diff_19 \<noteq> []" by (simp add: diff_19_def)
  have x: "\<not> no_exclusion ''f''" by (simp add: no_exclusion_def)
  from size_boundary [where excluded = no_exclusion and name = "''f''" and mode = MODIFY,
      OF t x i18 refl n18] l18
  have k: "commit_file_of 20 no_exclusion (''f'', MODIFY) diff_18 =
             Some (CommitFile (drop (13 + 1) diff_18) ''f'' MODIFY)"
    by simp
  from size_boundary [where excluded = no_exclusion and name = "''f''" and mode = MODIFY,
      OF t x i19 refl n19] l19
  have d: "commit_file_of 20 no_exclusion (''f'', MODIFY) diff_19 = None"
    by simp
  from t i18 l18 k i19 l19 d show ?thesis by blast
qed

lemma pair_files_zip:
  "parse_lines lines = Inr names_and_modes \<Longrightarrow>
   pair_files threshold excluded lines diff_list =
     Inr (List.map_filter
            (\<lambda>(name_and_mode, diff). commit_file_of threshold excluded name_and_mode diff)
            (zip names_and_modes diff_list))"
proof (induction lines arbitrary: names_and_modes diff_list)
  case Nil
  then show ?case by (simp add: List.map_filter_simps)
next
  case (Cons line lines)
  from Cons.prems obtain nm rest where
    nm: "parse_patch_header_line line = Inr nm" and
    rest: "parse_lines lines = Inr rest" and
    all: "names_and_modes = nm # rest"
    by (auto split: sum.splits)
  show ?case
  proof (cases diff_list)
    case Nil
    with nm all show ?thesis by (simp add: List.map_filter_simps)
  next
    case (Cons d ds)
    with nm all Cons.IH [OF rest, of ds] show ?thesis
      by (simp add: List.map_filter_simps split: option.splits)
  qed
qed

text \<open>
  C9. In a sub-patch with a header and a body, when every header line parses, the files
  come from the first \<open>k\<close> header entries paired in order with the first \<open>k\<close> diffs, \<open>k\<close>
  being the smaller of the two numbers; no exception is raised and what is beyond \<open>k\<close> on
  either side gives no file.
\<close>

theorem pairing_truncates:
  assumes "split_once (NUL # ''diff '') commit = Some (header, rest)"
    and "header_lines header = Inr lines"
    and "parse_lines lines = Inr names_and_modes"
    and "k = min (length names_and_modes) (length (split_diffs rest))"
  shows "parse_commit threshold excluded commit =
           Inr (List.map_filter
                  (\<lambda>(name_and_mode, diff). commit_file_of threshold excluded name_and_mode diff)
                  (zip (take k names_and_modes) (take k (split_diffs rest))))"
proof -
  have "zip (take k names_and_modes) (take k (split_diffs rest)) =
        zip names_and_modes (split_diffs rest)"
    using assms(4) by (simp add: take_zip [symmetric])
  with assms(1,2) pair_files_zip [OF assms(3)] show ?thesis
    by (simp add: parse_commit_def)
qed

text \<open>Two header entries and one diff: one file, that of the first entry.\<close>

theorem pairing_truncates_witness:
  "split_once (NUL # ''diff '') short_commit = Some (short_header, short_rest)
   \<and> header_lines short_header =
       Inr ['':100644 100644 bcd1234 0123456 M'' @ [NUL] @ ''file1'',
            '':000000 100644 0000000 1234567 A'' @ [NUL] @ ''file2'' @ [NUL]]
   \<and> parse_lines ['':100644 100644 bcd1234 0123456 M'' @ [NUL] @ ''file1'',
                   '':000000 100644 0000000 1234567 A'' @ [NUL] @ ''file2'' @ [NUL]] =
       Inr [(''file1'', MODIFY), (''file2'', NEW)]
   \<and> split_diffs short_rest = [short_rest]
   \<and> parse_commit 1048576 no_exclusion short_commit =
       Inr [CommitFile (''@@ -1 +1 @@'' @ [LF] @ ''+abcd'' @ [LF]) ''file1'' MODIFY]"
proof -
  have s: "split_once (NUL # ''diff '') short_commit = Some (short_header, short_rest)"
    by (simp add: short_commit_def short_header_def short_rest_def)
  have h: "header_lines short_header =
             Inr ['':100644 100644 bcd1234 0123456 M'' @ [NUL] @ ''file1'',
                  '':000000 100644 0000000 1234567 A'' @ [NUL] @ ''file2'' @ [NUL]]"
    by (simp add: header_lines_def short_header_def)
  have p: "parse_lines ['':100644 100644 bcd1234 0123456 M'' @ [NUL] @ ''file1'',
                        '':000000 100644 0000000 1234567 A'' @ [NUL] @ ''file2'' @ [NUL]] =
             Inr [(''file1'', MODIFY), (''file2'', NEW)]"
    by (simp add: parse_patch_header_line_def header_eval)
  have d: "split_diffs short_rest = [short_rest]"
    by (simp add: split_diffs_def short_rest_def)
  have k: "(1::nat) = min (length [(''file1'', MODIFY), (''file2'', NEW)])
                          (length (split_diffs short_rest))"
    by (simp add: d)
  have i: "index_of (LF # ''@@'') short_rest = Some 33" by (simp add: short_rest_def)
  have doc: "drop 34 short_rest = ''@@ -1 +1 @@'' @ [LF] @ ''+abcd'' @ [LF]"
    by (simp add: short_rest_def)
  have len: "length short_rest = 52" by (simp add: short_rest_def)
  have f: "commit_file_of 1048576 no_exclusion (''file1'', MODIFY) short_rest =
             Some (CommitFile (''@@ -1 +1 @@'' @ [LF] @ ''+abcd'' @ [LF]) ''file1'' MODIFY)"
    by (simp add: commit_file_of_def no_exclusion_def i doc len size_limit_exact)
  from pairing_truncates [OF s h p k, of 1048576 no_exclusion] d f
  have "parse_commit 1048576 no_exclusion short_commit =
          Inr [CommitFile (''@@ -1 +1 @@'' @ [LF] @ ''+abcd'' @ [LF]) ''file1'' MODIFY]"
    by (simp add: List.map_filter_simps)
  with s h p d show ?thesis by blast
qed


section \<open>Commit: properties\<close>

lemma empty_commit_parse:
  "parse_patch 1048576 (\<lambda>name. False) empty_commit_text = Inr []"
  by (simp add: parse_patch_def parse_commit_def empty_commit_text_def)

lemmas commit_eval =
  reads_def read_def commit_files_def get_files_def patch_def new_commit_def
  empty_commit_env_def parse_realizations_def git_invocations_def Let_def

text \<open>
  C8 at a commit without file changes, \<open>files\<close> read twice: git runs once, and the
  parse is realized at each of the two reads, because the empty list stored by the first
  read is what \<open>if not self._files\<close> takes for nothing stored.
\<close>

theorem files_parsed_again:
  "git_invocations (reads empty_commit_env [Files, Files] (new_commit (Some ''3a1f'') ())) = 1
   \<and> parse_realizations (reads empty_commit_env [Files, Files] (new_commit (Some ''3a1f'') ())) = 2"
  by (simp add: commit_eval empty_commit_parse)

text \<open>The half of C8 that holds: any reads of a new Commit, at least one, run git once.\<close>

lemma patch_inv:
  "memo_inv self \<Longrightarrow>
   memo_inv (snd (patch env self)) \<and> patch_memo (snd (patch env self)) \<noteq> None"
  by (auto simp: memo_inv_def patch_def Let_def git_invocations_def split: option.splits)

lemma read_inv:
  assumes "memo_inv self"
  shows "memo_inv (read env a self) \<and> patch_memo (read env a self) \<noteq> None"
proof (cases a)
  case Patch
  with patch_inv [OF assms] show ?thesis by (simp add: read_def)
next
  case Files
  show ?thesis
  proof (cases "files_memo self = []")
    case True
    obtain p self1 where p: "patch env self = (p, self1)" by (cases "patch env self")
    with patch_inv [OF assms, of env]
    have "memo_inv self1" and "patch_memo self1 \<noteq> None" by simp_all
    then show ?thesis using Files True p
      by (auto simp: read_def commit_files_def get_files_def Let_def memo_inv_def
            git_invocations_def split: sum.splits option.splits)
  next
    case False
    with assms Files show ?thesis
      by (auto simp: read_def commit_files_def memo_inv_def split: option.splits)
  qed
next
  case Info
  show ?thesis
  proof (cases "info_memo self")
    case None
    obtain p self1 where p: "patch env self = (p, self1)" by (cases "patch env self")
    with patch_inv [OF assms, of env]
    have "memo_inv self1" and "patch_memo self1 \<noteq> None" by simp_all
    then show ?thesis using Info None p
      by (auto simp: read_def info_def Let_def memo_inv_def git_invocations_def
            split: option.splits)
  next
    case (Some i)
    with assms Info show ?thesis
      by (auto simp: read_def info_def memo_inv_def split: option.splits)
  qed
qed

lemma reads_inv:
  "memo_inv self \<Longrightarrow> patch_memo self \<noteq> None \<or> accesses \<noteq> [] \<Longrightarrow>
   memo_inv (reads env accesses self) \<and> patch_memo (reads env accesses self) \<noteq> None"
proof (induction accesses arbitrary: self)
  case Nil
  then show ?case by (simp add: reads_def)
next
  case (Cons a accesses)
  from read_inv [OF Cons.prems(1), of env a] Cons.IH [of "read env a self"]
  show ?case by (simp add: reads_def)
qed

lemma git_invoked_once:
  assumes "accesses \<noteq> []"
  shows "git_invocations (reads env accesses (new_commit sha_arg regexes)) = 1"
proof -
  have "memo_inv (new_commit sha_arg regexes)"
    by (simp add: memo_inv_def new_commit_def git_invocations_def)
  from reads_inv [OF this, of accesses env] assms show ?thesis
    by (auto simp: memo_inv_def split: option.splits)
qed


section \<open>Error classifier and Scanner: properties\<close>

text \<open>
  C5 at a detail with status 400 whose text is a list of two non-empty items, for a chunk
  of one file: the first item is reported for the file, and reading \<open>chunk[1]\<close> for the
  second raises IndexError.
\<close>

theorem classifier_index_error:
  "handle_scan_chunk_error sample_env
     \<lparr>status_code = Some 400, detail_text = ''['too large', 'too large']''\<rparr>
     [sample_file ''a.py'']
   = ([ResultsMayBeIncomplete, AddToPathsIgnore 2, FileDetail ''a.py'' ''too large''],
      Some IndexError)"
  by (simp add: handle_scan_chunk_error_def sample_env_def sample_file_def)

text \<open>
  The part of C5 that holds: with a list no longer than the chunk, or no list, the
  classifier raises exactly for the status 401 and for no status.
\<close>

lemma report_details_in_range:
  "i + length details \<le> length chunk \<Longrightarrow> snd (report_details is_true chunk i details) = None"
proof (induction details arbitrary: i)
  case Nil
  show ?case by simp
next
  case (Cons inner_detail details)
  from Cons.prems have "Suc i + length details \<le> length chunk" and "i < length chunk"
    by simp_all
  with Cons.IH [of "Suc i"] show ?case by (simp add: case_prod_unfold)
qed

lemma classifier_raises_iff:
  assumes "\<And>details. literal_eval env (detail_text d) = ListValue details \<Longrightarrow>
             length details \<le> length chunk"
  shows "snd (handle_scan_chunk_error env d chunk) \<noteq> None \<longleftrightarrow>
           status_code d = Some 401 \<or> status_code d = None"
proof (cases "literal_eval env (detail_text d)")
  case (ListValue details)
  with assms have "0 + length details \<le> length chunk" by simp
  from report_details_in_range [OF this, of "truthy env"] ListValue show ?thesis
    by (auto simp: handle_scan_chunk_error_def split: prod.splits)
qed (auto simp: handle_scan_chunk_error_def)

lemma collect_futures_succeeded:
  "\<forall>p \<in> set done. succeeded (snd p) \<Longrightarrow>
   \<exists>st'. collect_futures env (done @ rest) st = collect_futures env rest st'"
proof (induction "done" arbitrary: st)
  case Nil
  show ?case by auto
next
  case (Cons p "done")
  obtain chunk fut where p: "p = (chunk, fut)" by (cases p)
  with Cons.prems obtain scan_results where fut: "fut = Returned (MultiScanResult scan_results)"
    by (auto simp: succeeded_def split: future.splits outcome.splits)
  from Cons.prems have "\<forall>p \<in> set done. succeeded (snd p)" by simp
  from Cons.IH [OF this] p fut show ?case by simp
qed

lemma collect_futures_raised:
  "collect_futures env ((chunk, Raised text) # rest) st =
     Inl (ClickException (''Error scanning, network error occurred: '' @ text))"
  by (simp add: handle_scan_chunk_error_def)

text \<open>
  C4, as the code has it. When the submission of exactly one chunk raises, with the text
  \<open>text\<close>, and every other submission returns per-document results, then in whatever
  order the futures complete \<open>scan\<close> returns no Results: it raises the ClickException of
  the network error with that text, from the error classifier, which gets the
  synthesized outcome without status code.
\<close>

theorem transport_failure_is_fatal:
  assumes "submitted =
             map (\<lambda>chunk. (chunk, client chunk)) (start_scans (MULTI_DOCUMENT_LIMIT env) fs)"
    and "mset (as_completed submitted) = mset submitted"
    and "filter (\<lambda>p. \<not> succeeded (snd p)) submitted = [(failed_chunk, Raised text)]"
  shows "scanner_scan env client as_completed fs =
           Inl (ClickException (''Error scanning, network error occurred: '' @ text))"
proof -
  have "mset (filter (\<lambda>p. \<not> succeeded (snd p)) (as_completed submitted)) =
        mset (filter (\<lambda>p. \<not> succeeded (snd p)) submitted)"
    using assms(2) by (simp only: mset_filter)
  then have "mset (filter (\<lambda>p. \<not> succeeded (snd p)) (as_completed submitted)) =
        {#(failed_chunk, Raised text)#}"
    by (simp only: assms(3) mset.simps)
  then have "filter (\<lambda>p. \<not> succeeded (snd p)) (as_completed submitted) =
        [(failed_chunk, Raised text)]"
    by (simp only: mset_single_iff)
  then obtain before after where
    split: "as_completed submitted = before @ (failed_chunk, Raised text) # after" and
    before: "\<forall>p \<in> set before. succeeded (snd p)"
    by (auto simp: filter_eq_Cons_iff)
  from collect_futures_succeeded [OF before] obtain st' where
    "collect_futures env (before @ (failed_chunk, Raised text) # after)
       \<lparr>found = [], failed = [], cache = [Purge]\<rparr> =
     collect_futures env ((failed_chunk, Raised text) # after) st'"
    by blast
  then show ?thesis
    using assms(1) split
    by (simp add: scanner_scan_def collect_results_def collect_futures_raised
          del: collect_futures.simps)
qed

text \<open>
  Two chunks of one file each, the first raising, completed in the reverse order of
  their submission.
\<close>

theorem transport_failure_is_fatal_witness:
  "start_scans 1 [sample_file ''a.py'', sample_file ''b.py''] =
     [[sample_file ''a.py''], [sample_file ''b.py'']]
   \<and> failing_client [sample_file ''a.py''] = Raised ''connection reset''
   \<and> succeeded (failing_client [sample_file ''b.py''])
   \<and> scanner_scan (sample_env\<lparr>MULTI_DOCUMENT_LIMIT := 1\<rparr>) failing_client rev
        [sample_file ''a.py'', sample_file ''b.py''] =
       Inl (ClickException ''Error scanning, network error occurred: connection reset'')"
proof -
  have c: "start_scans 1 [sample_file ''a.py'', sample_file ''b.py''] =
             [[sample_file ''a.py''], [sample_file ''b.py'']]"
    by (simp add: start_scans_def sample_file_def)
  have a: "failing_client [sample_file ''a.py''] = Raised ''connection reset''"
    by (simp add: failing_client_def sample_file_def)
  have b: "failing_client [sample_file ''b.py''] = Returned (MultiScanResult [()])"
    by (simp add: failing_client_def sample_file_def)
  have l: "MULTI_DOCUMENT_LIMIT (sample_env\<lparr>MULTI_DOCUMENT_LIMIT := 1\<rparr>) = 1" by simp
  have "scanner_scan (sample_env\<lparr>MULTI_DOCUMENT_LIMIT := 1\<rparr>) failing_client rev
          [sample_file ''a.py'', sample_file ''b.py''] =
        Inl (ClickException (''Error scanning, network error occurred: '' @ ''connection reset''))"
  proof (rule transport_failure_is_fatal [OF refl])
    show "mset (rev (map (\<lambda>chunk. (chunk, failing_client chunk))
             (start_scans (MULTI_DOCUMENT_LIMIT (sample_env\<lparr>MULTI_DOCUMENT_LIMIT := 1\<rparr>))
                [sample_file ''a.py'', sample_file ''b.py'']))) =
          mset (map (\<lambda>chunk. (chunk, failing_client chunk))
             (start_scans (MULTI_DOCUMENT_LIMIT (sample_env\<lparr>MULTI_DOCUMENT_LIMIT := 1\<rparr>))
                [sample_file ''a.py'', sample_file ''b.py'']))"
      by simp
    show "filter (\<lambda>p. \<not> succeeded (snd p))
            (map (\<lambda>chunk. (chunk, failing_client chunk))
               (start_scans (MULTI_DOCUMENT_LIMIT (sample_env\<lparr>MULTI_DOCUMENT_LIMIT := 1\<rparr>))
                  [sample_file ''a.py'', sample_file ''b.py''])) =
          [([sample_file ''a.py''], Raised ''connection reset'')]"
      by (simp only: l c) (simp add: a b succeeded_def)
  qed
  with c a b show ?thesis by (simp add: succeeded_def)
qed

text \<open>
  C4 as stated fails on a single file whose submission raises: \<open>scan\<close> returns no
  Results, where the claim has the Results with the one Error of the chunk.
\<close>

theorem transport_failure_counterexample:
  "scanner_scan sample_env failing_client id
     [sample_file ''a.py'']
     = Inl (ClickException ''Error scanning, network error occurred: connection reset'')
   \<and> scanner_scan sample_env failing_client id
        [sample_file ''a.py'']
     \<noteq> Inr (\<lparr>results = [],
              errors = [\<lparr>files = [(''a.py'', FILE)], description = ''connection reset''\<rparr>]\<rparr>,
            [Purge, Save])"
  by (simp add: scanner_scan_def collect_results_def start_scans_def sample_env_def
        sample_file_def failing_client_def handle_scan_chunk_error_def)

end
